theory Spec2Isabelle
  imports Complex_Main "HOL-Library.Word"
begin

unbundle bit_operations_syntax

section \<open>Percept3D: the camera stream user interface\<close>

text \<open>
  A shallow embedding of \<^verbatim>\<open>src/ui/camera_stream_ui.py\<close> (class \<^verbatim>\<open>CameraStreamUI\<close>).

  Conventions of the embedding:
  \<^item> Python integers are \<^typ>\<open>int\<close>; \<^verbatim>\<open>//\<close> on integers is \<open>div\<close> (both round
    towards minus infinity).
  \<^item> Python floats are idealised as exact rationals (\<^typ>\<open>rat\<close>); \<^verbatim>\<open>int(\<dots>)\<close> of a float
    truncates towards zero. Rounding of IEEE doubles is not modelled.
  \<^item> A colour image (a NumPy array of shape \<open>(rows, cols, 3)\<close> and dtype \<^verbatim>\<open>uint8\<close>) is a
    record of its shape and its indexing function.
  \<^item> Every exception the code can raise is a value of \<open>error\<close>; a function that can raise
    returns \<open>error + 'a\<close>.
  \<^item> The camera, the window system and the clock are an explicit environment; the calls
    the session makes on them are recorded as a list of effects.
\<close>

subsection \<open>Errors and arrays\<close>

datatype error = ZeroDivisionError | ValueError | CvError

record ndarray =
  nrows :: nat
  ncols :: nat
  px :: "nat \<Rightarrow> nat \<Rightarrow> nat \<Rightarrow> 8 word"

text \<open>\<^verbatim>\<open>int(f)\<close> for a float \<open>f\<close>: truncation towards zero.\<close>

definition py_int :: "rat \<Rightarrow> int" where
  "py_int r = (if 0 \<le> r then \<lfloor>r\<rfloor> else \<lceil>r\<rceil>)"

text \<open>\<^verbatim>\<open>np.zeros_like(a)\<close>: a new array of the shape of \<open>a\<close>, all zero.\<close>

definition zeros_like :: "ndarray \<Rightarrow> ndarray" where
  "zeros_like a = \<lparr>nrows = nrows a, ncols = ncols a, px = (\<lambda>i j k. 0)\<rparr>"

text \<open>\<^verbatim>\<open>np.full((h, w, 3), colour, dtype=np.uint8)\<close>.\<close>

definition np_full :: "int \<Rightarrow> int \<Rightarrow> (8 word \<times> 8 word \<times> 8 word) \<Rightarrow> error + ndarray" where
  "np_full h w colour =
     (if h < 0 \<or> w < 0 then Inl ValueError
      else Inr \<lparr>nrows = nat h, ncols = nat w,
                px = (\<lambda>i j k. case colour of (c0, c1, c2) \<Rightarrow>
                        if k = 0 then c0 else if k = 1 then c1 else c2)\<rparr>)"

text \<open>\<^verbatim>\<open>dst[:, :, c] = src[:, :, c]\<close> for two arrays of one shape.\<close>

definition set_channel :: "ndarray \<Rightarrow> nat \<Rightarrow> ndarray \<Rightarrow> ndarray" where
  "set_channel dst c src = dst\<lparr>px := (\<lambda>i j k. if k = c then px src i j k else px dst i j k)\<rparr>"

subsection \<open>The state of a \<^verbatim>\<open>CameraStreamUI\<close> object\<close>

record ui_state =
  camera_index :: int
  prev_time :: rat
  fps :: rat
  selected_filter :: "string option"
  header_height :: int
  button_width :: int
  button_height :: int
  button_margin :: int
  bg_color :: "8 word \<times> 8 word \<times> 8 word"

text \<open>\<^verbatim>\<open>__init__\<close>; \<open>now\<close> is what \<^verbatim>\<open>time.time()\<close> returns at construction.\<close>

definition init :: "int \<Rightarrow> rat \<Rightarrow> ui_state" where
  "init cam_index now =
     \<lparr>camera_index = cam_index, prev_time = now, fps = 0, selected_filter = None,
      header_height = 80, button_width = 200, button_height = 50, button_margin = 30,
      bg_color = (40, 40, 40)\<rparr>"

text \<open>
  \<^verbatim>\<open>update_fps\<close>; \<open>current_time\<close> is what \<^verbatim>\<open>time.time()\<close> returns in the call. The
  division raises when the two readings are equal.
\<close>

definition update_fps :: "rat \<Rightarrow> ui_state \<Rightarrow> error + ui_state" where
  "update_fps current_time s =
     (if current_time - prev_time s = 0 then Inl ZeroDivisionError
      else Inr (s\<lparr>fps := 1 / (current_time - prev_time s), prev_time := current_time\<rparr>))"

subsection \<open>The colour filter\<close>

text \<open>
  \<^verbatim>\<open>apply_filter(frame, color)\<close>. Frames are in OpenCV's channel order blue, green, red,
  so \<^verbatim>\<open>'red'\<close> is channel 2, \<^verbatim>\<open>'green'\<close> channel 1 and \<^verbatim>\<open>'blue'\<close> channel 0.
  \<open>color\<close> is a Python value that is \<^verbatim>\<open>None\<close> or a string.
\<close>

definition apply_filter :: "ndarray \<Rightarrow> string option \<Rightarrow> ndarray" where
  "apply_filter frame color =
     (let filtered = zeros_like frame in
      if color = Some ''red'' then set_channel filtered 2 frame
      else if color = Some ''green'' then set_channel filtered 1 frame
      else if color = Some ''blue'' then set_channel filtered 0 frame
      else filtered)"

text \<open>
  The same function on an explicit store of arrays, to make allocation and in-place
  writes visible: \<^verbatim>\<open>np.zeros_like\<close> allocates a new array, and each assignment
  \<^verbatim>\<open>filtered[:, :, c] = frame[:, :, c]\<close> overwrites the array \<open>filtered\<close> refers to.
  References are natural numbers; \<open>next_ref\<close> is the next unused one. A reference that
  is not allocated cannot occur in Python; the model returns \<open>None\<close> for it.
\<close>

record heap =
  arrays :: "nat \<rightharpoonup> ndarray"
  next_ref :: nat

definition alloc :: "ndarray \<Rightarrow> heap \<Rightarrow> nat \<times> heap" where
  "alloc a h = (next_ref h, h\<lparr>arrays := (arrays h)(next_ref h \<mapsto> a), next_ref := Suc (next_ref h)\<rparr>)"

definition zeros_like_st :: "heap \<Rightarrow> nat \<Rightarrow> (nat \<times> heap) option" where
  "zeros_like_st h r = (case arrays h r of None \<Rightarrow> None | Some a \<Rightarrow> Some (alloc (zeros_like a) h))"

definition copy_channel_st :: "heap \<Rightarrow> nat \<Rightarrow> nat \<Rightarrow> nat \<Rightarrow> heap option" where
  "copy_channel_st h dst c src =
     (case arrays h dst of None \<Rightarrow> None
      | Some d \<Rightarrow> (case arrays h src of None \<Rightarrow> None
          | Some s \<Rightarrow> Some (h\<lparr>arrays := (arrays h)(dst \<mapsto> set_channel d c s)\<rparr>)))"

definition apply_filter_st :: "heap \<Rightarrow> nat \<Rightarrow> string option \<Rightarrow> (nat \<times> heap) option" where
  "apply_filter_st h frame color =
     (case zeros_like_st h frame of None \<Rightarrow> None
      | Some (filtered, h1) \<Rightarrow>
          (case (if color = Some ''red'' then copy_channel_st h1 filtered 2 frame
                 else if color = Some ''green'' then copy_channel_st h1 filtered 1 frame
                 else if color = Some ''blue'' then copy_channel_st h1 filtered 0 frame
                 else Some h1)
           of None \<Rightarrow> None | Some h2 \<Rightarrow> Some (filtered, h2)))"

text \<open>The channel index the code uses for a colour name.\<close>

definition channel_of :: "string option \<Rightarrow> nat" where
  "channel_of color = (if color = Some ''red'' then 2 else if color = Some ''green'' then 1 else 0)"

text \<open>
  The first statement of \<^verbatim>\<open>draw_processed_stream\<close>: the frame that the processed panel
  shows. \<^verbatim>\<open>if self.selected_filter:\<close> is Python truthiness: \<^verbatim>\<open>None\<close> and the empty
  string are false. \<^verbatim>\<open>cam_frame.copy()\<close> is a new array with the same contents.
\<close>

definition truthy :: "string option \<Rightarrow> bool" where
  "truthy v = (case v of None \<Rightarrow> False | Some str \<Rightarrow> str \<noteq> [])"

definition proc_frame :: "ui_state \<Rightarrow> ndarray \<Rightarrow> ndarray" where
  "proc_frame s cam_frame =
     (if truthy (selected_filter s) then apply_filter cam_frame (selected_filter s)
      else cam_frame)"

subsection \<open>Header geometry and hit testing\<close>

text \<open>\<^verbatim>\<open>str.lower()\<close> on the ASCII letters.\<close>

definition lower_char :: "char \<Rightarrow> char" where
  "lower_char c = (if 65 \<le> (of_char c :: nat) \<and> (of_char c :: nat) \<le> 90
                   then char_of ((of_char c :: nat) + 32) else c)"

definition py_lower :: "string \<Rightarrow> string" where
  "py_lower str = map lower_char str"

text \<open>
  The button rectangles of \<^verbatim>\<open>draw_header(panel, x, y, w, h)\<close>: for each button its name
  and \<^verbatim>\<open>btn_rect = (x_btn, y_btn, button_width, button_height)\<close>, in the coordinates of
  \<^verbatim>\<open>header_panel = panel[y:y+h, x:x+w]\<close>.
\<close>

definition header_buttons :: "ui_state \<Rightarrow> int \<Rightarrow> int \<Rightarrow> (string \<times> int \<times> int \<times> int \<times> int) list" where
  "header_buttons s w h =
     (let names = [''Red'', ''Green'', ''Blue''];
          total_buttons_width = 3 * button_width s + 2 * button_margin s;
          panel_width = w;
          start_x = (panel_width - total_buttons_width) div 2;
          y_btn = (h - button_height s) div 2
      in map (\<lambda>(i, name).
                let x_btn = start_x + int i * (button_width s + button_margin s)
                in (name, x_btn, y_btn, button_width s, button_height s))
             (enumerate 0 names))"

text \<open>
  The pixels of \<^verbatim>\<open>header_panel\<close> that the two filled \<^verbatim>\<open>cv2.rectangle\<close> calls of a button
  cover (both corners of a rectangle are inclusive). The four corner circles add pixels
  inside \<^verbatim>\<open>btn_rect\<close> only; the text, the icon and the blend change colours, not the
  covered region.
\<close>

definition button_painted :: "int \<times> int \<times> int \<times> int \<Rightarrow> int \<Rightarrow> int \<Rightarrow> bool" where
  "button_painted r qx qy =
     (case r of (x_btn, y_btn, bw, bh) \<Rightarrow>
        let radius = 18 in
        (x_btn + radius \<le> qx \<and> qx \<le> x_btn + bw - radius \<and> y_btn \<le> qy \<and> qy \<le> y_btn + bh)
        \<or> (x_btn \<le> qx \<and> qx \<le> x_btn + bw \<and> y_btn + radius \<le> qy \<and> qy \<le> y_btn + bh - radius))"

text \<open>
  Canvas pixel \<open>(cx, cy)\<close> shows the button called \<open>name\<close> (in lower case) after
  \<^verbatim>\<open>draw_header(panel, x, y, w, h)\<close>, for a header band that starts inside the canvas.
\<close>

definition header_paints :: "ui_state \<Rightarrow> int \<Rightarrow> int \<Rightarrow> int \<Rightarrow> int \<Rightarrow> string \<Rightarrow> int \<Rightarrow> int \<Rightarrow> bool" where
  "header_paints s x y w h name cx cy =
     (0 \<le> cx - x \<and> cx - x < w \<and> 0 \<le> cy - y \<and> cy - y < h \<and>
      list_ex (\<lambda>(n, r). py_lower n = name \<and> button_painted r (cx - x) (cy - y))
              (header_buttons s w h))"

text \<open>\<^verbatim>\<open>get_button_clicked\<close>: the loop over the three names, then the function.\<close>

fun find_button :: "ui_state \<Rightarrow> int \<Rightarrow> int \<Rightarrow> int \<Rightarrow> (nat \<times> string) list \<Rightarrow> string option" where
  "find_button s x y start_x [] = None"
| "find_button s x y start_x ((i, name) # rest) =
     (let bx = start_x + int i * (button_width s + button_margin s);
          by = (header_height s - button_height s) div 2
      in if bx \<le> x \<and> x \<le> bx + button_width s \<and> by \<le> y \<and> y \<le> by + button_height s
         then Some name
         else find_button s x y start_x rest)"

definition get_button_clicked :: "ui_state \<Rightarrow> int \<Rightarrow> int \<Rightarrow> int \<Rightarrow> string option" where
  "get_button_clicked s x y panel_width =
     (let total_buttons_width = 3 * button_width s + 2 * button_margin s;
          start_x = (panel_width - total_buttons_width) div 2
      in find_button s x y start_x (enumerate 0 [''red'', ''green'', ''blue'']))"

text \<open>
  \<^verbatim>\<open>mouse_callback(event, x, y, flags, param)\<close>; \<open>param\<close> is \<^verbatim>\<open>None\<close> or a dictionary.
  \<^verbatim>\<open>cv2.EVENT_LBUTTONDOWN\<close> is 1.
\<close>

definition EVENT_LBUTTONDOWN :: int where
  "EVENT_LBUTTONDOWN = 1"

definition mouse_callback ::
  "ui_state \<Rightarrow> int \<Rightarrow> int \<Rightarrow> int \<Rightarrow> int \<Rightarrow> (string \<rightharpoonup> int) option \<Rightarrow> ui_state" where
  "mouse_callback s event x y flags param =
     (if event = EVENT_LBUTTONDOWN \<and> y < header_height s then
        let panel_width = (case param of None \<Rightarrow> 1920
                           | Some d \<Rightarrow> (case d ''panel_width'' of None \<Rightarrow> 1920 | Some v \<Rightarrow> v));
            clicked = get_button_clicked s x y panel_width
        in if truthy clicked then s\<lparr>selected_filter := clicked\<rparr> else s
      else s)"

subsection \<open>Scaling and placing a stream\<close>

text \<open>
  Python's \<^verbatim>\<open>slice(start, stop).indices(n)\<close> for step 1: a negative bound counts from
  the end, and both bounds are clamped to \<open>[0, n]\<close>. The result is the half-open range
  of indices selected; it is empty when the second component is not above the first.
\<close>

definition slice_bounds :: "nat \<Rightarrow> int \<Rightarrow> int \<Rightarrow> nat \<times> nat" where
  "slice_bounds n start stop =
     (let lo = (if start < 0 then max (start + int n) 0 else min start (int n));
          hi = (if stop < 0 then max (stop + int n) 0 else min stop (int n))
      in (nat lo, nat (max lo hi)))"

text \<open>
  \<^verbatim>\<open>panel[r0:r1, c0:c1] = src\<close>. NumPy selects the region by \<open>slice_bounds\<close> and then
  broadcasts \<open>src\<close> to the region's shape: each dimension of \<open>src\<close> must equal the
  region's or be 1, or the assignment raises \<^verbatim>\<open>ValueError\<close>. The panel is updated in
  place; the model returns the updated panel.
\<close>

definition slice_assign :: "ndarray \<Rightarrow> int \<Rightarrow> int \<Rightarrow> int \<Rightarrow> int \<Rightarrow> ndarray \<Rightarrow> error + ndarray" where
  "slice_assign panel r0 r1 c0 c1 src =
     (case slice_bounds (nrows panel) r0 r1 of (rlo, rhi) \<Rightarrow>
      case slice_bounds (ncols panel) c0 c1 of (clo, chi) \<Rightarrow>
        if (nrows src = rhi - rlo \<or> nrows src = 1) \<and> (ncols src = chi - clo \<or> ncols src = 1)
        then Inr (panel\<lparr>px := (\<lambda>i j k.
                    if rlo \<le> i \<and> i < rhi \<and> clo \<le> j \<and> j < chi
                    then px src (if nrows src = 1 then 0 else i - rlo)
                                (if ncols src = 1 then 0 else j - clo) k
                    else px panel i j k)\<rparr>)
        else Inl ValueError)"

text \<open>
  \<^verbatim>\<open>cv2.resize(src, (dw, dh))\<close>: an image of \<open>dh\<close> rows and \<open>dw\<close> columns; OpenCV raises
  for an empty source or a target size that is not positive. OpenCV interpolates
  bilinearly; the sample taken here (nearest neighbour) stands in for the interpolated
  values, which no property below depends on.
\<close>

definition cv2_resize :: "ndarray \<Rightarrow> int \<Rightarrow> int \<Rightarrow> error + ndarray" where
  "cv2_resize src dw dh =
     (if dw \<le> 0 \<or> dh \<le> 0 \<or> nrows src = 0 \<or> ncols src = 0 then Inl CvError
      else Inr \<lparr>nrows = nat dh, ncols = nat dw,
                px = (\<lambda>i j k. px src (i * nrows src div nat dh) (j * ncols src div nat dw) k)\<rparr>)"

text \<open>
  The arithmetic shared by \<^verbatim>\<open>draw_original_stream\<close> (lines 137 to 147) and
  \<^verbatim>\<open>draw_processed_stream\<close> (lines 160 to 170): from the frame's shape \<open>(h_f, w_f)\<close>, the
  target rectangle and the ratio to \<open>(x1, y1, display_h, display_w)\<close>. Both divisions
  are float divisions and raise on a zero divisor.
\<close>

definition stream_geometry ::
  "int \<Rightarrow> int \<Rightarrow> int \<Rightarrow> int \<Rightarrow> int \<Rightarrow> int \<Rightarrow> rat \<Rightarrow> error + (int \<times> int \<times> int \<times> int)" where
  "stream_geometry h_f w_f x y w h ratio =
     (let xc = x + w div 2; yc = y + h div 2 in
      if h_f = 0 then Inl ZeroDivisionError
      else
        let aspect = of_int w_f / of_int h_f;
            display_w = py_int (of_int w_f * ratio)
        in if aspect = 0 then Inl ZeroDivisionError
           else
             let display_h = py_int (of_int display_w / aspect);
                 x1 = xc - display_w div 2;
                 y1 = yc - display_h div 2
             in Inr (x1, y1, display_h, display_w))"

text \<open>
  The body both drawing functions share once the frame to show is fixed: geometry,
  \<^verbatim>\<open>cv2.resize\<close>, and the write \<^verbatim>\<open>panel[y1:y1+display_h, x1:x1+display_w] = resized\<close>.
  The result is the updated panel and the returned tuple.
\<close>

definition draw_stream ::
  "ndarray \<Rightarrow> ndarray \<Rightarrow> int \<Rightarrow> int \<Rightarrow> int \<Rightarrow> int \<Rightarrow> rat \<Rightarrow> error + (ndarray \<times> int \<times> int \<times> int \<times> int)" where
  "draw_stream panel frame x y w h ratio =
     (case stream_geometry (int (nrows frame)) (int (ncols frame)) x y w h ratio of
        Inl e \<Rightarrow> Inl e
      | Inr (x1, y1, display_h, display_w) \<Rightarrow>
          (case cv2_resize frame display_w display_h of
             Inl e \<Rightarrow> Inl e
           | Inr resized \<Rightarrow>
               (case slice_assign panel y1 (y1 + display_h) x1 (x1 + display_w) resized of
                  Inl e \<Rightarrow> Inl e
                | Inr panel' \<Rightarrow> Inr (panel', x1, y1, display_h, display_w))))"

definition draw_original_stream ::
  "ndarray \<Rightarrow> ndarray \<Rightarrow> int \<Rightarrow> int \<Rightarrow> int \<Rightarrow> int \<Rightarrow> rat \<Rightarrow> error + (ndarray \<times> int \<times> int \<times> int \<times> int)" where
  "draw_original_stream panel cam_frame x y w h ratio = draw_stream panel cam_frame x y w h ratio"

definition draw_processed_stream ::
  "ui_state \<Rightarrow> ndarray \<Rightarrow> ndarray \<Rightarrow> int \<Rightarrow> int \<Rightarrow> int \<Rightarrow> int \<Rightarrow> rat
     \<Rightarrow> error + (ndarray \<times> int \<times> int \<times> int \<times> int)" where
  "draw_processed_stream s panel cam_frame x y w h ratio =
     draw_stream panel (proc_frame s cam_frame) x y w h ratio"

text \<open>
  \<^verbatim>\<open>draw_footer\<close>: a filled \<^verbatim>\<open>cv2.rectangle\<close> from \<open>(x, y)\<close> to \<open>(x + w, y + h)\<close>, both
  inclusive, clipped to the panel by OpenCV.
\<close>

definition draw_footer :: "ndarray \<Rightarrow> int \<Rightarrow> int \<Rightarrow> int \<Rightarrow> int \<Rightarrow> ndarray" where
  "draw_footer panel x y w h =
     panel\<lparr>px := (\<lambda>i j k.
        if min x (x + w) \<le> int j \<and> int j \<le> max x (x + w) \<and>
           min y (y + h) \<le> int i \<and> int i \<le> max y (y + h)
        then (if k = 0 then 30 else if k = 1 then 34 else 40)
        else px panel i j k)\<rparr>"

subsection \<open>The layout and the session\<close>

type_synonym rect = "int \<times> int \<times> int \<times> int"

record layout =
  header_rect :: rect
  footer_rect :: rect
  orig_rect :: rect
  proc_rect :: rect

text \<open>Lines 201 to 210 of \<^verbatim>\<open>run\<close>: the four rectangles \<open>(x, y, w, h)\<close> of a screen.\<close>

definition compute_layout :: "int \<Rightarrow> int \<Rightarrow> layout" where
  "compute_layout screen_w screen_h =
     (let header_height = py_int (0.10 * of_int screen_h);
          footer_height = py_int (0.10 * of_int screen_h);
          stream_panel_height = screen_h - header_height - footer_height;
          stream_panel_width = screen_w div 2
      in \<lparr>header_rect = (0, 0, screen_w, header_height),
          footer_rect = (0, screen_h - footer_height, screen_w, footer_height),
          orig_rect = (0, header_height, stream_panel_width, stream_panel_height),
          proc_rect = (stream_panel_width, header_height, stream_panel_width, stream_panel_height)\<rparr>)"

text \<open>
  What the session does to the outside: lines printed, and calls on the window system
  and on the capture source.
\<close>

datatype effect =
    Print string
  | NamedWindow string
  | SetWindowProperty string
  | SetMouseCallback string int
  | ImShow string
  | Release
  | DestroyAllWindows

text \<open>
  How a call of \<^verbatim>\<open>run\<close> ends: it returns, it is left by an exception that nothing
  catches, or it is still in its loop when the script of the environment ends.
\<close>

datatype status = Returned | Raised error | Running

text \<open>
  One iteration of the loop as the environment supplies it: the result of
  \<^verbatim>\<open>cap.read()\<close> (\<open>None\<close> when \<^verbatim>\<open>ret\<close> is false), the reading of the clock in
  \<^verbatim>\<open>update_fps\<close>, the pointer events \<open>(event, x, y, flags)\<close> that the window system
  delivers to the callback while \<^verbatim>\<open>cv2.waitKey\<close> runs, and the value \<^verbatim>\<open>cv2.waitKey\<close>
  returns. The field \<open>screen\<close> of the environment is what \<^verbatim>\<open>get_screen_resolution\<close>
  returns; it asks \<^verbatim>\<open>user32\<close>, so the session is one on Windows.
\<close>

record tick =
  frame_read :: "ndarray option"
  clock :: rat
  mouse :: "(int \<times> int \<times> int \<times> int) list"
  key :: int

record env =
  cap_opened :: bool
  first_read :: "ndarray option"
  screen :: "int \<times> int"
  ticks :: "tick list"

text \<open>
  Lines 218 to 226: the canvas of one iteration. \<^verbatim>\<open>draw_header\<close> paints inside the
  header band only (OpenCV clips its drawing to the image); its pixel values are not
  modelled, its geometry is \<open>header_buttons\<close>. The two stream panels are drawn with the
  default ratio 1.2.
\<close>

definition compose_panel :: "ui_state \<Rightarrow> layout \<Rightarrow> int \<Rightarrow> int \<Rightarrow> ndarray \<Rightarrow> error + ndarray" where
  "compose_panel s L screen_w screen_h frame =
     (case np_full screen_h screen_w (bg_color s) of
        Inl e \<Rightarrow> Inl e
      | Inr panel \<Rightarrow>
          (case footer_rect L of (fx, fy, fw, fh) \<Rightarrow>
           case orig_rect L of (ox, oy, ow, oh) \<Rightarrow>
           case proc_rect L of (qx, qy, qw, qh) \<Rightarrow>
             (case draw_original_stream (draw_footer panel fx fy fw fh) frame ox oy ow oh 1.2 of
                Inl e \<Rightarrow> Inl e
              | Inr (panel1, _) \<Rightarrow>
                  (case draw_processed_stream s panel1 frame qx qy qw qh 1.2 of
                     Inl e \<Rightarrow> Inl e
                   | Inr (panel2, _) \<Rightarrow> Inr panel2))))"

text \<open>
  The \<^verbatim>\<open>while True\<close> loop of \<^verbatim>\<open>run\<close> over the script of the environment, and after it
  the two cleanup calls. The callback was registered with
  \<^verbatim>\<open>param={'panel_width': screen_w}\<close>.
\<close>

fun run_loop ::
  "layout \<Rightarrow> int \<Rightarrow> int \<Rightarrow> ui_state \<Rightarrow> effect list \<Rightarrow> tick list \<Rightarrow> status \<times> ui_state \<times> effect list" where
  "run_loop L screen_w screen_h s tr [] = (Running, s, tr)"
| "run_loop L screen_w screen_h s tr (t # ts) =
     (case frame_read t of
        None \<Rightarrow> (Returned, s, tr @ [Print ''Error: Failed to read frame.'', Release, DestroyAllWindows])
      | Some frame \<Rightarrow>
          (case update_fps (clock t) s of
             Inl e \<Rightarrow> (Raised e, s, tr)
           | Inr s1 \<Rightarrow>
               (case compose_panel s1 L screen_w screen_h frame of
                  Inl e \<Rightarrow> (Raised e, s1, tr)
                | Inr panel \<Rightarrow>
                    (let tr1 = tr @ [ImShow ''Percept3D''];
                         s2 = fold (\<lambda>(event, x, y, flags) st.
                                      mouse_callback st event x y flags
                                        (Some [''panel_width'' \<mapsto> screen_w]))
                                   (mouse t) s1
                     in if key t AND 255 = of_char (CHR ''q'')
                        then (Returned, s2, tr1 @ [Release, DestroyAllWindows])
                        else run_loop L screen_w screen_h s2 tr1 ts))))"

text \<open>
  \<^verbatim>\<open>run\<close>. The capture source was opened in \<^verbatim>\<open>__init__\<close>; \<open>cap_opened\<close> is what
  \<^verbatim>\<open>isOpened()\<close> answers. \<^verbatim>\<open>cam_aspect = cam_w / cam_h\<close> raises for a frame without rows.
\<close>

definition run :: "ui_state \<Rightarrow> env \<Rightarrow> status \<times> ui_state \<times> effect list" where
  "run s e =
     (if \<not> cap_opened e then (Returned, s, [Print ''Error: Could not open camera.''])
      else
        let tr = [NamedWindow ''Percept3D'', SetWindowProperty ''Percept3D''] in
        (case first_read e of
           None \<Rightarrow> (Returned, s, tr @ [Print ''Error: Failed to read frame.''])
         | Some frame \<Rightarrow>
             if nrows frame = 0 then (Raised ZeroDivisionError, s, tr)
             else
               (case screen e of (screen_w, screen_h) \<Rightarrow>
                  run_loop (compute_layout screen_w screen_h) screen_w screen_h s
                    (tr @ [SetMouseCallback ''Percept3D'' screen_w]) (ticks e))))"

text \<open>
  The states an object can be in: built by \<^verbatim>\<open>__init__\<close>, then changed by the two
  methods that assign to fields, \<^verbatim>\<open>update_fps\<close> and \<^verbatim>\<open>mouse_callback\<close>, with any arguments.
\<close>

inductive reachable :: "ui_state \<Rightarrow> bool" where
  reach_init: "reachable (init cam_index now)"
| reach_fps: "reachable s \<Longrightarrow> update_fps now s = Inr s' \<Longrightarrow> reachable s'"
| reach_mouse: "reachable s \<Longrightarrow> reachable (mouse_callback s event x y flags param)"

subsection \<open>Predicates and sample inputs of the properties\<close>

text \<open>The values the field \<^verbatim>\<open>selected_filter\<close> is meant to hold.\<close>

definition valid_filter :: "string option \<Rightarrow> bool" where
  "valid_filter v = (v = None \<or> v = Some ''red'' \<or> v = Some ''green'' \<or> v = Some ''blue'')"

definition rect_w :: "rect \<Rightarrow> int" where
  "rect_w r = (case r of (x, y, w, h) \<Rightarrow> w)"

definition rect_h :: "rect \<Rightarrow> int" where
  "rect_h r = (case r of (x, y, w, h) \<Rightarrow> h)"

text \<open>Pixel \<open>(qx, qy)\<close> lies in the rectangle \<open>(x, y, w, h)\<close>.\<close>

definition inside :: "rect \<Rightarrow> int \<Rightarrow> int \<Rightarrow> bool" where
  "inside r qx qy = (case r of (x, y, w, h) \<Rightarrow> x \<le> qx \<and> qx < x + w \<and> y \<le> qy \<and> qy < y + h)"

text \<open>The number of rectangles of a layout that a pixel lies in.\<close>

definition covering :: "layout \<Rightarrow> int \<Rightarrow> int \<Rightarrow> nat" where
  "covering L qx qy =
     length (filter (\<lambda>r. inside r qx qy) [header_rect L, footer_rect L, orig_rect L, proc_rect L])"


text \<open>A black camera frame of 640 by 480 pixels, and a canvas in the background colour.\<close>

definition cam640 :: ndarray where
  "cam640 = \<lparr>nrows = 480, ncols = 640, px = (\<lambda>i j k. 0)\<rparr>"


text \<open>A store that holds one frame of one pixel, with the values 7, 8 and 9.\<close>

definition one_pixel :: ndarray where
  "one_pixel = \<lparr>nrows = 1, ncols = 1, px = (\<lambda>i j k. if k = 0 then 7 else if k = 1 then 8 else 9)\<rparr>"

definition heap1 :: heap where
  "heap1 = \<lparr>arrays = [0 \<mapsto> one_pixel], next_ref = 1\<rparr>"

text \<open>
  An iteration in which a frame arrives and the user presses \<^verbatim>\<open>q\<close>; a session whose
  camera does not open; a session on a 1920 by 1080 screen that is quit in its first
  iteration; the same session on a 1366 by 768 screen.
\<close>

definition quit_tick :: tick where
  "quit_tick = \<lparr>frame_read = Some cam640, clock = 1, mouse = [], key = 113\<rparr>"

definition env_closed :: env where
  "env_closed = \<lparr>cap_opened = False, first_read = None, screen = (1920, 1080), ticks = []\<rparr>"

definition env_1080 :: env where
  "env_1080 = \<lparr>cap_opened = True, first_read = Some cam640, screen = (1920, 1080), ticks = [quit_tick]\<rparr>"

definition env_768 :: env where
  "env_768 = \<lparr>cap_opened = True, first_read = Some cam640, screen = (1366, 768), ticks = [quit_tick]\<rparr>"

section \<open>Properties\<close>

subsection \<open>The frame rate\<close>

text \<open>
  Claim C9. \<^verbatim>\<open>update_fps\<close> sets the estimate to the reciprocal of the time between the
  two most recent readings of the clock and remembers the new reading only: readings
  one second apart give 1, readings a tenth of a second apart give 10, and the new
  estimate depends on nothing in the old state but the previous reading. (Floats are
  exact rationals here, so the values are exact.)
\<close>

theorem update_fps_reciprocal:
  "(case update_fps (t + 1) (s\<lparr>prev_time := t\<rparr>) of
      Inl e \<Rightarrow> False | Inr s' \<Rightarrow> fps s' = 1 \<and> prev_time s' = t + 1)
   \<and> (case update_fps (t + 1 / 10) (s\<lparr>prev_time := t\<rparr>) of
      Inl e \<Rightarrow> False | Inr s' \<Rightarrow> fps s' = 10 \<and> prev_time s' = t + 1 / 10)
   \<and> (now \<noteq> prev_time s \<longrightarrow>
        update_fps now s = Inr (s\<lparr>fps := 1 / (now - prev_time s), prev_time := now\<rparr>))
   \<and> (prev_time s1 = prev_time s2 \<longrightarrow>
        map_sum id fps (update_fps now s1) = map_sum id fps (update_fps now s2))"
  by (simp add: update_fps_def)

theorem update_fps_reciprocal_witness:
  "(1001 :: rat) \<noteq> prev_time (init 0 1000)
   \<and> update_fps 1001 (init 0 1000) = Inr ((init 0 1000)\<lparr>fps := 1, prev_time := 1001\<rparr>)
   \<and> prev_time ((init 0 3)\<lparr>fps := 7\<rparr>) = prev_time (init 0 3)
   \<and> map_sum id fps (update_fps 5 ((init 0 3)\<lparr>fps := 7\<rparr>)) = map_sum id fps (update_fps 5 (init 0 3))"
  using update_fps_reciprocal [of 1000 "init 0 1000" 1001 "(init 0 3)\<lparr>fps := 7\<rparr>" "init 0 3"]
    update_fps_reciprocal [of 0 "init 0 3" 5 "(init 0 3)\<lparr>fps := 7\<rparr>" "init 0 3"]
  by (simp add: init_def)

subsection \<open>The colour filter\<close>

lemma apply_filter_px:
  "color \<in> {Some ''red'', Some ''green'', Some ''blue''} \<Longrightarrow>
   px (apply_filter F color) i j k = (if k = channel_of color then px F i j k else 0)"
  by (auto simp: apply_filter_def channel_of_def set_channel_def zeros_like_def Let_def)

lemma apply_filter_shape:
  "nrows (apply_filter F color) = nrows F \<and> ncols (apply_filter F color) = ncols F"
  by (simp add: apply_filter_def set_channel_def zeros_like_def Let_def)

text \<open>On the store, the call allocates one array and writes to that array only.\<close>

lemma apply_filter_st_value:
  assumes "arrays h frame = Some F" and "frame < next_ref h"
  shows "apply_filter_st h frame color =
           Some (next_ref h, h\<lparr>arrays := (arrays h)(next_ref h \<mapsto> apply_filter F color),
                               next_ref := Suc (next_ref h)\<rparr>)"
  using assms
  by (auto simp: apply_filter_st_def zeros_like_st_def alloc_def copy_channel_st_def
      apply_filter_def Let_def)

text \<open>
  Called with \<^verbatim>\<open>None\<close>, \<^verbatim>\<open>apply_filter\<close> itself returns a black frame; the guard in
  \<^verbatim>\<open>draw_processed_stream\<close> keeps that call from happening.
\<close>

lemma apply_filter_none_is_black:
  "px (apply_filter F None) i j k = 0"
  by (simp add: apply_filter_def zeros_like_def)

text \<open>
  Claim C2. For a frame \<open>F\<close> and a colour among red, green and blue, the filter returns
  a new array \<open>G\<close> of the shape of \<open>F\<close> in which the channel of the colour (2, 1 or 0 in
  OpenCV's order) holds the values of \<open>F\<close> and the other two channels are zero; it is
  what the processed panel shows when that colour is selected. The input is not
  changed in place: the result is a fresh reference, the array of \<open>F\<close> is still in the
  store as it was, and so is every other array.
\<close>

theorem apply_filter_keeps_one_channel:
  assumes "arrays h frame = Some F" and "frame < next_ref h"
    and "color \<in> {Some ''red'', Some ''green'', Some ''blue''}"
  shows "\<exists>filtered h' G. apply_filter_st h frame color = Some (filtered, h')
           \<and> arrays h' filtered = Some G \<and> G = apply_filter F color
           \<and> proc_frame (s\<lparr>selected_filter := color\<rparr>) F = G
           \<and> nrows G = nrows F \<and> ncols G = ncols F
           \<and> (\<forall>i j k. px G i j k = (if k = channel_of color then px F i j k else 0))
           \<and> filtered \<noteq> frame \<and> arrays h' frame = Some F
           \<and> (\<forall>r. r \<noteq> filtered \<longrightarrow> arrays h' r = arrays h r)"
proof -
  let ?h' = "h\<lparr>arrays := (arrays h)(next_ref h \<mapsto> apply_filter F color), next_ref := Suc (next_ref h)\<rparr>"
  have run: "apply_filter_st h frame color = Some (next_ref h, ?h')"
    using assms(1,2) by (rule apply_filter_st_value)
  have fresh: "next_ref h \<noteq> frame" using assms(2) by simp
  have stored: "arrays ?h' (next_ref h) = Some (apply_filter F color)" by simp
  have kept: "arrays ?h' frame = Some F" using fresh assms(1) by simp
  have others: "\<forall>r. r \<noteq> next_ref h \<longrightarrow> arrays ?h' r = arrays h r" by simp
  have vals: "\<forall>i j k. px (apply_filter F color) i j k = (if k = channel_of color then px F i j k else 0)"
    using assms(3) by (simp add: apply_filter_px)
  have shown: "proc_frame (s\<lparr>selected_filter := color\<rparr>) F = apply_filter F color"
    using assms(3) by (auto simp: proc_frame_def truthy_def)
  show ?thesis
    using run fresh stored kept others vals shown apply_filter_shape [of F color] by blast
qed

theorem apply_filter_keeps_one_channel_witness:
  "arrays heap1 0 = Some one_pixel \<and> 0 < next_ref heap1
   \<and> (\<exists>filtered h' G. apply_filter_st heap1 0 (Some ''green'') = Some (filtered, h')
         \<and> arrays h' filtered = Some G
         \<and> px G 0 0 0 = 0 \<and> px G 0 0 1 = 8 \<and> px G 0 0 2 = 0
         \<and> nrows G = 1 \<and> ncols G = 1
         \<and> filtered \<noteq> 0 \<and> arrays h' 0 = Some one_pixel)"
proof -
  have a: "arrays heap1 0 = Some one_pixel" and b: "0 < next_ref heap1"
    by (simp_all add: heap1_def)
  have c: "Some ''green'' \<in> {Some ''red'', Some ''green'', Some ''blue''}" by simp
  obtain filtered h' G where r: "apply_filter_st heap1 0 (Some ''green'') = Some (filtered, h')"
    "arrays h' filtered = Some G" "nrows G = nrows one_pixel" "ncols G = ncols one_pixel"
    "\<forall>i j k. px G i j k = (if k = channel_of (Some ''green'') then px one_pixel i j k else 0)"
    "filtered \<noteq> 0" "arrays h' 0 = Some one_pixel"
    using apply_filter_keeps_one_channel [OF a b c] by blast
  have "px G 0 0 0 = 0 \<and> px G 0 0 1 = 8 \<and> px G 0 0 2 = 0 \<and> nrows G = 1 \<and> ncols G = 1"
    using r(3,4,5) by (simp add: channel_of_def one_pixel_def)
  then show ?thesis using a b r(1,2,6,7) by blast
qed

text \<open>
  Claim C3. With no filter selected, the frame that the processed panel shows is the
  camera frame itself: same shape, same value at every pixel and channel.
\<close>

theorem proc_frame_none_is_copy:
  "proc_frame (s\<lparr>selected_filter := None\<rparr>) F = F"
  by (simp add: proc_frame_def truthy_def)

theorem proc_frame_none_is_copy_witness:
  "selected_filter (init 0 0) = None \<and> proc_frame (init 0 0) one_pixel = one_pixel"
  using proc_frame_none_is_copy [of "init 0 0" one_pixel]
  by (simp add: init_def)

subsection \<open>The selected filter\<close>

lemma find_button_range:
  "set (map snd bs) \<subseteq> {''red'', ''green'', ''blue''} \<Longrightarrow> valid_filter (find_button s x y sx bs)"
proof (induction bs)
  case Nil
  show ?case by (simp add: valid_filter_def)
next
  case (Cons b bs)
  obtain i name where b: "b = (i, name)" by (cases b)
  have name: "name \<in> {''red'', ''green'', ''blue''}" using Cons.prems b by simp
  have rest: "valid_filter (find_button s x y sx bs)" using Cons by simp
  have here: "valid_filter (Some name)" using name by (auto simp: valid_filter_def)
  show ?case unfolding b using rest here by (simp add: Let_def)
qed

lemma get_button_clicked_range: "valid_filter (get_button_clicked s x y pw)"
  unfolding get_button_clicked_def Let_def
  by (rule find_button_range) simp

lemma mouse_callback_valid:
  "valid_filter (selected_filter s) \<Longrightarrow>
   valid_filter (selected_filter (mouse_callback s event x y flags param))"
  using get_button_clicked_range
  by (simp add: mouse_callback_def Let_def)

lemma update_fps_selected: "update_fps now s = Inr s' \<Longrightarrow> selected_filter s' = selected_filter s"
  by (auto simp: update_fps_def split: if_splits)

lemma reachable_valid: "reachable s \<Longrightarrow> valid_filter (selected_filter s)"
proof (induction rule: reachable.induct)
  case (reach_init cam_index now)
  show ?case by (simp add: init_def valid_filter_def)
next
  case (reach_fps s now s')
  then show ?case by (simp add: update_fps_selected)
next
  case (reach_mouse s event x y flags param)
  then show ?case by (simp add: mouse_callback_valid)
qed

lemma fold_mouse_reachable:
  "reachable s \<Longrightarrow>
   reachable (fold (\<lambda>(event, x, y, flags) st. mouse_callback st event x y flags p) evs s)"
  by (induction evs arbitrary: s) (auto intro: reachable.reach_mouse)

text \<open>The session leaves the object in a state that the two mutating methods can produce.\<close>

lemma run_loop_reachable:
  "reachable s \<Longrightarrow> reachable (fst (snd (run_loop L sw sh s tr ts)))"
proof (induction ts arbitrary: s tr)
  case Nil
  then show ?case by simp
next
  case (Cons t ts)
  show ?case
  proof (cases "frame_read t")
    case None
    then show ?thesis using Cons.prems by simp
  next
    case (Some frame)
    show ?thesis
    proof (cases "update_fps (clock t) s")
      case (Inl e)
      then show ?thesis using Some Cons.prems by simp
    next
      case s1: (Inr s1)
      then have r1: "reachable s1" using Cons.prems by (auto intro: reachable.reach_fps)
      show ?thesis
      proof (cases "compose_panel s1 L sw sh frame")
        case (Inl e)
        then show ?thesis using Some s1 r1 by simp
      next
        case (Inr panel)
        let ?s2 = "fold (\<lambda>(event, x, y, flags) st. mouse_callback st event x y flags
                     (Some [''panel_width'' \<mapsto> sw])) (mouse t) s1"
        have r2: "reachable ?s2" using r1 by (rule fold_mouse_reachable)
        show ?thesis using Some s1 Inr r2 Cons.IH [OF r2]
          by (simp add: Let_def)
      qed
    qed
  qed
qed

lemma run_reachable: "reachable s \<Longrightarrow> reachable (fst (snd (run s e)))"
  unfolding run_def Let_def
  by (auto split: option.splits prod.splits intro: run_loop_reachable)

text \<open>
  Claim C10. The selected filter is always \<^verbatim>\<open>None\<close>, \<^verbatim>\<open>'red'\<close>, \<^verbatim>\<open>'green'\<close> or \<^verbatim>\<open>'blue'\<close>:
  it is \<^verbatim>\<open>None\<close> after construction, \<^verbatim>\<open>get_button_clicked\<close> returns one of the four
  values only, and in every state the object can reach the field holds one of them,
  also after a further pointer event and after a whole session.
\<close>

theorem selected_filter_invariant:
  "valid_filter (selected_filter (init cam_index now))
   \<and> valid_filter (get_button_clicked s x y panel_width)
   \<and> (reachable s \<longrightarrow> valid_filter (selected_filter s)
        \<and> valid_filter (selected_filter (mouse_callback s event x y flags param))
        \<and> valid_filter (selected_filter (fst (snd (run s e)))))"
  using reachable_valid run_reachable reachable.reach_mouse reachable.reach_init get_button_clicked_range
  by blast

theorem selected_filter_invariant_witness:
  "reachable (mouse_callback (init 0 0) EVENT_LBUTTONDOWN 960 40 0 (Some [''panel_width'' \<mapsto> 1920]))
   \<and> selected_filter (mouse_callback (init 0 0) EVENT_LBUTTONDOWN 960 40 0
        (Some [''panel_width'' \<mapsto> 1920])) = Some ''green''
   \<and> valid_filter (Some ''green'')"
proof -
  let ?s = "mouse_callback (init 0 0) EVENT_LBUTTONDOWN 960 40 0 (Some [''panel_width'' \<mapsto> 1920])"
  have r: "reachable ?s" by (intro reachable.reach_mouse reachable.reach_init)
  have g: "selected_filter ?s = Some ''green''" by code_simp
  have "valid_filter (selected_filter ?s)"
    using selected_filter_invariant [where s = "?s" and e = env_closed] r by blast
  then show ?thesis using r g by simp
qed

subsection \<open>Hit testing against the drawn header\<close>

text \<open>
  Claim C1 asks that every pointer position inside a drawn button selects that button.
  On a 1920 by 1080 screen the header band is 108 pixels high, so \<^verbatim>\<open>draw_header\<close>
  centres the buttons on it (rows 29 to 79), while \<^verbatim>\<open>get_button_clicked\<close> and
  \<^verbatim>\<open>mouse_callback\<close> use the field \<^verbatim>\<open>header_height = 80\<close> (rows 15 to 65). The pixel
  \<open>(960, 70)\<close> is painted as part of the Green button, passes the test
  \<^verbatim>\<open>y < self.header_height\<close>, and is answered with \<^verbatim>\<open>None\<close>: the selection stays
  unset.
\<close>

theorem hit_test_misses_drawn_button:
  "header_rect (compute_layout 1920 1080) = (0, 0, 1920, 108)
   \<and> header_paints (init 0 0) 0 0 1920 108 ''green'' 960 70
   \<and> get_button_clicked (init 0 0) 960 70 1920 = None
   \<and> selected_filter (mouse_callback (init 0 0) EVENT_LBUTTONDOWN 960 70 0
        (Some [''panel_width'' \<mapsto> 1920])) = None"
  by code_simp

text \<open>
  On the same screen the centre of the drawn Green button, \<open>(960, 54)\<close>, is answered
  with green, and the corner \<open>(0, 0)\<close> with no button. On a 3840 by 2160 screen the
  header band is 216 pixels high and the centre of the drawn Green button, row 108,
  is below the 80 rows that \<^verbatim>\<open>mouse_callback\<close> looks at.
\<close>

lemma hit_test_examples:
  "header_paints (init 0 0) 0 0 1920 108 ''green'' 960 54
   \<and> get_button_clicked (init 0 0) 960 54 1920 = Some ''green''
   \<and> get_button_clicked (init 0 0) 0 0 1920 = None
   \<and> header_rect (compute_layout 3840 2160) = (0, 0, 3840, 216)
   \<and> header_paints (init 0 0) 0 0 3840 216 ''green'' 1920 108
   \<and> selected_filter (mouse_callback (init 0 0) EVENT_LBUTTONDOWN 1920 108 0
        (Some [''panel_width'' \<mapsto> 3840])) = None"
  by code_simp

text \<open>
  Where the header band is as high as the field says, the two computations agree: a
  pixel painted as part of a button is answered with that button.
\<close>

lemma hit_test_agrees_at_field_height:
  assumes "header_paints s 0 0 w (header_height s) name cx cy"
  shows "get_button_clicked s cx cy w \<noteq> None"
proof -
  define sx where "sx = (w - (3 * button_width s + 2 * button_margin s)) div 2"
  define yb where "yb = (header_height s - button_height s) div 2"
  define step where "step = button_width s + button_margin s"
  have "\<exists>i\<in>{0, 1, 2::int}. (sx + i * step + 18 \<le> cx \<and> cx \<le> sx + i * step + button_width s - 18 \<and> yb \<le> cy \<and> cy \<le> yb + button_height s)
          \<or> (sx + i * step \<le> cx \<and> cx \<le> sx + i * step + button_width s \<and> yb + 18 \<le> cy \<and> cy \<le> yb + button_height s - 18)"
    using assms
    by (auto simp: header_paints_def header_buttons_def button_painted_def Let_def
        sx_def yb_def step_def)
  then have "\<exists>i\<in>{0, 1, 2::int}. sx + i * step \<le> cx \<and> cx \<le> sx + i * step + button_width s \<and> yb \<le> cy \<and> cy \<le> yb + button_height s"
    by auto
  then show ?thesis
    by (auto simp: get_button_clicked_def Let_def sx_def yb_def step_def)
qed

subsection \<open>Failure to open the camera\<close>

text \<open>
  Claim C8. When the capture source is not open, \<^verbatim>\<open>run\<close> prints the error and
  returns: the object is unchanged, no window is created and nothing is shown, so the
  loop is never entered.
\<close>

theorem run_open_failure:
  assumes "\<not> cap_opened e"
  shows "run s e = (Returned, s, [Print ''Error: Could not open camera.''])
         \<and> (\<forall>w. NamedWindow w \<notin> set (snd (snd (run s e))))
         \<and> (\<forall>w. ImShow w \<notin> set (snd (snd (run s e))))"
  using assms by (simp add: run_def)

theorem run_open_failure_witness:
  "\<not> cap_opened env_closed
   \<and> run (init 0 0) env_closed = (Returned, init 0 0, [Print ''Error: Could not open camera.''])"
proof -
  have c: "\<not> cap_opened env_closed" by (simp add: env_closed_def)
  show ?thesis using c run_open_failure [OF c, of "init 0 0"] by simp
qed

subsection \<open>The layout\<close>

lemma py_int_tenth:
  "py_int (0.10 * of_int n) = (if 0 \<le> n then n div 10 else - ((- n) div 10))"
proof (cases "0 \<le> n")
  case True
  have "\<lfloor>(of_int n :: rat) / 10\<rfloor> = n div 10"
    using floor_divide_of_int_eq [of n 10, where ?'a = rat] by simp
  with True show ?thesis by (simp add: py_int_def)
next
  case False
  have "\<lceil>(of_int n :: rat) / 10\<rceil> = - \<lfloor>(of_int (- n) :: rat) / 10\<rfloor>"
    by (simp add: ceiling_def)
  also have "\<dots> = - ((- n) div 10)"
    using floor_divide_of_int_eq [of "- n" 10, where ?'a = rat] by simp
  finally show ?thesis using False by (simp add: py_int_def)
qed

lemma layout_explicit:
  "compute_layout W H =
     (let hh = (if 0 \<le> H then H div 10 else - ((- H) div 10)) in
      \<lparr>header_rect = (0, 0, W, hh), footer_rect = (0, H - hh, W, hh),
       orig_rect = (0, hh, W div 2, H - hh - hh), proc_rect = (W div 2, hh, W div 2, H - hh - hh)\<rparr>)"
  unfolding compute_layout_def py_int_tenth by (simp add: Let_def)

lemma tenth_bounds:
  fixes H :: int
  defines "hh \<equiv> (if 0 \<le> H then H div 10 else - ((- H) div 10))"
  shows "(0 \<le> H \<longrightarrow> 0 \<le> hh \<and> 2 * hh \<le> H) \<and> (H < 0 \<longrightarrow> hh \<le> 0 \<and> H - hh - hh \<le> 0)"
  unfolding hh_def by (cases "0 \<le> H") (simp_all, presburger+)

lemma half_bounds: "2 * ((W::int) div 2) = W - W mod 2"
  by presburger

lemma covering_le_1: "covering (compute_layout W H) qx qy \<le> 1"
proof -
  define hh where "hh = (if 0 \<le> H then H div 10 else - ((- H) div 10))"
  have b: "(0 \<le> H \<longrightarrow> 0 \<le> hh \<and> 2 * hh \<le> H) \<and> (H < 0 \<longrightarrow> hh \<le> 0 \<and> H - hh - hh \<le> 0)"
    unfolding hh_def by (rule tenth_bounds)
  have L: "compute_layout W H = \<lparr>header_rect = (0, 0, W, hh), footer_rect = (0, H - hh, W, hh),
       orig_rect = (0, hh, W div 2, H - hh - hh), proc_rect = (W div 2, hh, W div 2, H - hh - hh)\<rparr>"
    unfolding layout_explicit hh_def by (simp add: Let_def)
  show ?thesis unfolding L covering_def inside_def using b
    by (cases "0 \<le> H") (auto simp: half_bounds)
qed

lemma covering_eq_1:
  assumes "0 \<le> qx" "qx < W - W mod 2" "0 \<le> qy" "qy < H"
  shows "covering (compute_layout W H) qx qy = 1"
proof -
  define hh where "hh = (if 0 \<le> H then H div 10 else - ((- H) div 10))"
  have b: "(0 \<le> H \<longrightarrow> 0 \<le> hh \<and> 2 * hh \<le> H) \<and> (H < 0 \<longrightarrow> hh \<le> 0 \<and> H - hh - hh \<le> 0)"
    unfolding hh_def by (rule tenth_bounds)
  have L: "compute_layout W H = \<lparr>header_rect = (0, 0, W, hh), footer_rect = (0, H - hh, W, hh),
       orig_rect = (0, hh, W div 2, H - hh - hh), proc_rect = (W div 2, hh, W div 2, H - hh - hh)\<rparr>"
    unfolding layout_explicit hh_def by (simp add: Let_def)
  have w: "2 * (W div 2) = W - W mod 2" by (rule half_bounds)
  have H0: "0 \<le> H" using assms by linarith
  show ?thesis unfolding L covering_def inside_def using b w H0 assms
    by auto
qed

text \<open>
  Claim C4 says that for every screen the rectangles partition the canvas, with the two
  panel widths adding up to the screen width. Both panels are \<^verbatim>\<open>screen_w // 2\<close> wide,
  so on a screen of 1367 columns they add up to 1366.
\<close>

theorem layout_partition_counterexample:
  "rect_w (orig_rect (compute_layout 1367 768)) + rect_w (proc_rect (compute_layout 1367 768)) \<noteq> 1367"
  by (simp add: layout_explicit rect_w_def)

text \<open>
  Claim C4, amended. For every screen the heights of the header, a stream panel and
  the footer add up to the screen height, and both panels have that height; the two
  panel widths add up to the screen width rounded down to an even number; no pixel
  lies in two of the four rectangles; and every pixel of the canvas lies in exactly
  one of them, but for the last column of a screen of odd width.
\<close>

theorem layout_partition_amended:
  "rect_h (header_rect (compute_layout W H)) + rect_h (orig_rect (compute_layout W H))
      + rect_h (footer_rect (compute_layout W H)) = H
   \<and> rect_h (proc_rect (compute_layout W H)) = rect_h (orig_rect (compute_layout W H))
   \<and> rect_w (orig_rect (compute_layout W H)) + rect_w (proc_rect (compute_layout W H)) = W - W mod 2
   \<and> covering (compute_layout W H) qx qy \<le> 1
   \<and> (0 \<le> qx \<and> qx < W - W mod 2 \<and> 0 \<le> qy \<and> qy < H \<longrightarrow> covering (compute_layout W H) qx qy = 1)"
proof -
  have 1: "rect_h (header_rect (compute_layout W H)) + rect_h (orig_rect (compute_layout W H))
      + rect_h (footer_rect (compute_layout W H)) = H"
    by (simp add: compute_layout_def Let_def rect_h_def)
  have 2: "rect_h (proc_rect (compute_layout W H)) = rect_h (orig_rect (compute_layout W H))"
    by (simp add: compute_layout_def Let_def rect_h_def)
  have 3: "rect_w (orig_rect (compute_layout W H)) + rect_w (proc_rect (compute_layout W H)) = W - W mod 2"
    using half_bounds [of W] by (simp add: compute_layout_def Let_def rect_w_def)
  show ?thesis using 1 2 3 covering_le_1 covering_eq_1 by blast
qed

theorem layout_partition_amended_witness:
  "(0 :: int) \<le> 1000 \<and> (1000 :: int) < 1920 - 1920 mod 2 \<and> (0 :: int) \<le> 500 \<and> (500 :: int) < 1080
   \<and> covering (compute_layout 1920 1080) 1000 500 = 1
   \<and> rect_w (orig_rect (compute_layout 1920 1080)) + rect_w (proc_rect (compute_layout 1920 1080)) = 1920
   \<and> rect_w (orig_rect (compute_layout 1367 768)) + rect_w (proc_rect (compute_layout 1367 768)) = 1366"
  using layout_partition_amended [of 1920 1080 1000 500] layout_partition_amended [of 1367 768 0 0]
  by simp

subsection \<open>Scaling and placing a stream\<close>






text \<open>Values of the geometry for a 640 by 480 frame at the default ratio.\<close>

lemma geo_1080: "stream_geometry 480 640 0 108 960 864 (6 / 5) = Inr (96, 252, 576, 768)"
  by code_simp

lemma geo_1080_proc: "stream_geometry 480 640 960 108 960 864 (6 / 5) = Inr (1056, 252, 576, 768)"
  by code_simp

lemma geo_768: "stream_geometry 480 640 0 76 683 616 (6 / 5) = Inr (-43, 96, 576, 768)"
  by code_simp

lemma layout_1080: "compute_layout 1920 1080 =
   \<lparr>header_rect = (0, 0, 1920, 108), footer_rect = (0, 972, 1920, 108),
    orig_rect = (0, 108, 960, 864), proc_rect = (960, 108, 960, 864)\<rparr>"
  by code_simp

lemma layout_768: "compute_layout 1366 768 =
   \<lparr>header_rect = (0, 0, 1366, 76), footer_rect = (0, 692, 1366, 76),
    orig_rect = (0, 76, 683, 616), proc_rect = (683, 76, 683, 616)\<rparr>"
  by code_simp





subsection \<open>Writing the scaled image into the canvas\<close>







lemma compose_1080:
  "\<exists>p. compose_panel s (compute_layout 1920 1080) 1920 1080 cam640 = Inr p"
  by (simp add: compose_panel_def layout_1080 np_full_def draw_footer_def
      draw_original_stream_def draw_processed_stream_def draw_stream_def cam640_def geo_1080 geo_1080_proc
      proc_frame_def apply_filter_def zeros_like_def set_channel_def Let_def
      cv2_resize_def slice_assign_def slice_bounds_def split: prod.splits)

lemma compose_768:
  "compose_panel (s\<lparr>bg_color := (40, 40, 40)\<rparr>) (compute_layout 1366 768) 1366 768 cam640 = Inl ValueError"
  by (simp add: compose_panel_def layout_768 np_full_def draw_footer_def
      draw_original_stream_def draw_stream_def cam640_def geo_768
      cv2_resize_def slice_assign_def slice_bounds_def)




subsection \<open>The end of a session\<close>

text \<open>
  When the loop is left by \<^verbatim>\<open>break\<close>, the effects end with the release of the capture
  source and the destruction of the windows.
\<close>

lemma run_loop_returned:
  "run_loop L sw sh s tr ts = (Returned, s', tr') \<Longrightarrow>
     \<exists>mid. tr' = tr @ mid @ [Release, DestroyAllWindows]"
proof (induction ts arbitrary: s tr)
  case Nil
  then show ?case by simp
next
  case (Cons t ts)
  show ?case
  proof (cases "frame_read t")
    case None
    with Cons.prems have "tr' = tr @ [Print ''Error: Failed to read frame.''] @ [Release, DestroyAllWindows]"
      by simp
    then show ?thesis by blast
  next
    case (Some frame)
    show ?thesis
    proof (cases "update_fps (clock t) s")
      case (Inl e)
      with Some Cons.prems show ?thesis by simp
    next
      case s1: (Inr s1)
      show ?thesis
      proof (cases "compose_panel s1 L sw sh frame")
        case (Inl e)
        with Some s1 Cons.prems show ?thesis by simp
      next
        case (Inr panel)
        let ?s2 = "fold (\<lambda>(event, x, y, flags) st. mouse_callback st event x y flags
                     (Some [''panel_width'' \<mapsto> sw])) (mouse t) s1"
        show ?thesis
        proof (cases "key t AND 255 = of_char (CHR ''q'')")
          case True
          with Some s1 Inr Cons.prems
          have "tr' = tr @ [ImShow ''Percept3D''] @ [Release, DestroyAllWindows]"
            by (simp add: Let_def)
          then show ?thesis by blast
        next
          case False
          with Some s1 Inr Cons.prems
          have "run_loop L sw sh ?s2 (tr @ [ImShow ''Percept3D'']) ts = (Returned, s', tr')"
            by (simp add: Let_def)
          from Cons.IH [OF this] obtain mid where
            "tr' = (tr @ [ImShow ''Percept3D'']) @ mid @ [Release, DestroyAllWindows]" by blast
          then have "tr' = tr @ ([ImShow ''Percept3D''] @ mid) @ [Release, DestroyAllWindows]" by simp
          then show ?thesis by blast
        qed
      qed
    qed
  qed
qed

text \<open>
  The first read, before the loop, ends the call by \<^verbatim>\<open>return\<close>: the window exists and
  the capture source is open, and neither is cleaned up.
\<close>

lemma run_first_read_failure:
  "cap_opened e \<Longrightarrow> first_read e = None \<Longrightarrow>
   run s e = (Returned, s, [NamedWindow ''Percept3D'', SetWindowProperty ''Percept3D'',
                            Print ''Error: Failed to read frame.''])"
  by (simp add: run_def)

text \<open>A session on a 1920 by 1080 screen that is quit in its first iteration.\<close>

lemma run_quit_1080:
  "\<exists>s'. run (init 0 0) env_1080 =
     (Returned, s', [NamedWindow ''Percept3D'', SetWindowProperty ''Percept3D'',
                     SetMouseCallback ''Percept3D'' 1920, ImShow ''Percept3D'', Release, DestroyAllWindows])"
proof -
  obtain p where p: "compose_panel ((init 0 0)\<lparr>fps := 1, prev_time := 1\<rparr>) (compute_layout 1920 1080) 1920 1080 cam640 = Inr p"
    using compose_1080 by blast
  have u: "update_fps 1 (init 0 0) = Inr ((init 0 0)\<lparr>fps := 1, prev_time := 1\<rparr>)"
    by (simp add: update_fps_def init_def)
  have c: "nrows cam640 \<noteq> 0" by (simp add: cam640_def)
  show ?thesis using p u c by (simp add: run_def env_1080_def quit_tick_def Let_def)
qed

text \<open>
  The same session on a 1366 by 768 screen is left by the \<^verbatim>\<open>ValueError\<close> of the first
  canvas write; nothing is shown and nothing is cleaned up.
\<close>

lemma run_crash_768:
  "run (init 0 0) env_768
     = (Raised ValueError, (init 0 0)\<lparr>fps := 1, prev_time := 1\<rparr>,
        [NamedWindow ''Percept3D'', SetWindowProperty ''Percept3D'', SetMouseCallback ''Percept3D'' 1366])"
proof -
  have p: "compose_panel ((init 0 0)\<lparr>fps := 1, prev_time := 1\<rparr>) (compute_layout 1366 768) 1366 768 cam640 = Inl ValueError"
    using compose_768 [of "(init 0 0)\<lparr>fps := 1, prev_time := 1\<rparr>"] by (simp add: init_def)
  have u: "update_fps 1 (init 0 0) = Inr ((init 0 0)\<lparr>fps := 1, prev_time := 1\<rparr>)"
    by (simp add: update_fps_def init_def)
  have c: "nrows cam640 \<noteq> 0" by (simp add: cam640_def)
  show ?thesis using p u c by (simp add: run_def env_768_def quit_tick_def Let_def)
qed

text \<open>
  Claim C7 says that every way a session ends, the failure to open the camera
  included, releases the capture source and destroys the windows. When the camera
  does not open, \<^verbatim>\<open>run\<close> returns after printing; it never calls \<^verbatim>\<open>release\<close>.
\<close>

theorem run_cleanup_counterexample:
  "fst (run (init 0 0) env_closed) = Returned
   \<and> Release \<notin> set (snd (snd (run (init 0 0) env_closed)))
   \<and> DestroyAllWindows \<notin> set (snd (snd (run (init 0 0) env_closed)))"
  by (simp add: run_def env_closed_def)

text \<open>
  Claim C7, amended. A session that got past its first read and then returns has left
  its loop, by the quit key or by a failed read, and its last two effects are the
  release of the capture source and the destruction of the windows. A session whose
  camera does not open returns after printing the error, with no window created and
  no cleanup call.
\<close>

theorem run_cleanup_after_loop:
  "(cap_opened e \<and> first_read e \<noteq> None \<and> run s e = (Returned, s', tr) \<longrightarrow>
      (\<exists>mid. tr = [NamedWindow ''Percept3D'', SetWindowProperty ''Percept3D'',
                    SetMouseCallback ''Percept3D'' (fst (screen e))] @ mid @ [Release, DestroyAllWindows]))
   \<and> (\<not> cap_opened e \<longrightarrow> run s e = (Returned, s, [Print ''Error: Could not open camera.'']))"
proof -
  have "\<exists>mid. tr = [NamedWindow ''Percept3D'', SetWindowProperty ''Percept3D'',
                    SetMouseCallback ''Percept3D'' (fst (screen e))] @ mid @ [Release, DestroyAllWindows]"
    if o: "cap_opened e" and f: "first_read e \<noteq> None" and r: "run s e = (Returned, s', tr)"
  proof -
    obtain frame where fr: "first_read e = Some frame" using f by auto
    obtain sw sh where sc: "screen e = (sw, sh)" by (cases "screen e")
    have nz: "nrows frame \<noteq> 0" using r o fr by (auto simp: run_def Let_def split: if_splits)
    have "run_loop (compute_layout sw sh) sw sh s
            [NamedWindow ''Percept3D'', SetWindowProperty ''Percept3D'', SetMouseCallback ''Percept3D'' sw]
            (ticks e) = (Returned, s', tr)"
      using r o fr sc nz by (simp add: run_def Let_def)
    from run_loop_returned [OF this] show ?thesis using sc by simp
  qed
  moreover have "run s e = (Returned, s, [Print ''Error: Could not open camera.''])" if "\<not> cap_opened e"
    using that by (simp add: run_def)
  ultimately show ?thesis by blast
qed

theorem run_cleanup_after_loop_witness:
  "cap_opened env_1080 \<and> first_read env_1080 \<noteq> None
   \<and> (\<exists>s' tr mid. run (init 0 0) env_1080 = (Returned, s', tr)
         \<and> tr = [NamedWindow ''Percept3D'', SetWindowProperty ''Percept3D'',
                  SetMouseCallback ''Percept3D'' 1920] @ mid @ [Release, DestroyAllWindows])
   \<and> \<not> cap_opened env_closed
   \<and> run (init 0 0) env_closed = (Returned, init 0 0, [Print ''Error: Could not open camera.''])"
proof -
  obtain s' tr where r: "run (init 0 0) env_1080 = (Returned, s', tr)"
    using run_quit_1080 by blast
  have o: "cap_opened env_1080" and f: "first_read env_1080 \<noteq> None" and sc: "fst (screen env_1080) = 1920"
    by (simp_all add: env_1080_def)
  have "\<exists>mid. tr = [NamedWindow ''Percept3D'', SetWindowProperty ''Percept3D'',
                    SetMouseCallback ''Percept3D'' (fst (screen env_1080))] @ mid @ [Release, DestroyAllWindows]"
    using run_cleanup_after_loop [of env_1080 "init 0 0" s' tr] o f r by blast
  then have a: "\<exists>s' tr mid. run (init 0 0) env_1080 = (Returned, s', tr)
         \<and> tr = [NamedWindow ''Percept3D'', SetWindowProperty ''Percept3D'',
                  SetMouseCallback ''Percept3D'' 1920] @ mid @ [Release, DestroyAllWindows]"
    using r sc by auto
  have c: "\<not> cap_opened env_closed" by (simp add: env_closed_def)
  have b: "run (init 0 0) env_closed = (Returned, init 0 0, [Print ''Error: Could not open camera.''])"
    using run_cleanup_after_loop [of env_closed "init 0 0"] c by blast
  show ?thesis using o f a c b by blast
qed

end
